theory Spec2Isabelle
  imports Main
begin

section \<open>The application object of \<open>src/flask/app.py\<close>\<close>

text \<open>
  The source file holds the decorator \<open>setupmethod\<close> and the first methods of the
  class \<open>Flask\<close>: \<open>__init__\<close>, \<open>make_config\<close> and \<open>auto_find_instance_path\<close>.
  Exceptions are values: a method that can raise returns \<open>error + 'a\<close>, with \<open>Inl\<close>
  for the exception.  Attribute names of the source that start with an underscore
  lose it (\<open>_got_first_request\<close> is \<open>got_first_request\<close>).
\<close>

text \<open>
  \<open>AssertionError\<close> and \<open>ValueError\<close> are the two exceptions the source raises, with
  their messages.  The other three are errors of the specification (section 7),
  raised by the parts that are modelled from it.
\<close>

datatype error =
    AssertionError string
  | ValueError string
  | ValidationError
  | ConflictError
  | ContextMissingError

subsection \<open>Data\<close>

text \<open>
  The converter classes stored in the URL map's converter table (lines 200 to 206).
\<close>

datatype converter =
    UnicodeConverter
  | AnyConverter
  | PathConverter
  | IntegerConverter
  | FloatConverter
  | UUIDConverter

text \<open>
  A rule as \<open>add_url_rule\<close> receives it at line 225: the rule string, the endpoint
  and the host.
\<close>

record rule =
  rule_string :: string
  endpoint :: string
  host :: "string option"

text \<open>
  The \<open>Map\<close> object held in \<open>url_map\<close>: the two flags and the converter table that
  \<open>__init__\<close> writes, and the rules registered so far.
\<close>

record url_Map =
  host_matching :: bool
  subdomain_matching :: bool
  converters :: "string \<rightharpoonup> converter"
  rules :: "rule list"

text \<open>
  Objects of classes that are not in the source are values of abstract types; the
  dictionaries that hold them start empty.
\<close>

typedecl config_value
typedecl blueprint
typedecl extension
typedecl logger_obj
typedecl app_group

datatype Config = Config string "string \<rightharpoonup> config_value"

datatype handler_key = Status_code int | Exception_class string

text \<open>
  The attributes of a \<open>Flask\<close> object.  \<open>'f\<close> is the type of callables (view
  functions, hooks, handlers).  The first six attributes are read by the methods of
  the source but assigned by none of them before the read: they come from
  \<open>_PackageBoundObject.__init__\<close> and from the class.  The same holds for \<open>name\<close>
  and \<open>debug\<close> until lines 233 and 235 assign them.  The attribute \<open>cli\<close> (line 209)
  holds a back reference to the application and is left out.
\<close>

record 'f Flask =
  import_name :: string
  root_path :: string
  template_folder :: "string option"
  static_url_path :: string
  static_folder :: "string option"
  default_config :: "string \<rightharpoonup> config_value"
  instance_path :: string
  config :: Config
  view_functions :: "string \<rightharpoonup> 'f"
  error_handlers :: "handler_key \<rightharpoonup> 'f"
  url_map :: url_Map
  blueprints :: "string \<rightharpoonup> blueprint"
  before_request_funcs :: "string option \<rightharpoonup> 'f list"
  after_request_funcs :: "string option \<rightharpoonup> 'f list"
  teardown_request_funcs :: "string option \<rightharpoonup> 'f list"
  teardown_appcontext_funcs :: "'f list"
  template_context_processors :: "string option \<rightharpoonup> 'f list"
  shell_context_processors :: "'f list"
  url_value_preprocessors :: "string option \<rightharpoonup> 'f list"
  url_default_functions :: "string option \<rightharpoonup> 'f list"
  extensions :: "string \<rightharpoonup> extension"
  got_first_request :: bool
  before_first_request_functions :: "'f list"
  logger :: "logger_obj option"
  name :: string
  debug :: bool
  cli_commands :: "string \<rightharpoonup> app_group"

text \<open>
  What the source calls and does not define: the initialiser of the base class, the
  property \<open>has_static_folder\<close>, the view \<open>send_static_file\<close>, \<open>find_package\<close> and
  \<open>get_debug_flag\<close> of \<open>flask.helpers\<close>, the functions of \<open>os.path\<close>, the
  constructor \<open>Map()\<close>, and the two checks of a rule at registration.  They are
  parameters of the model, and they are taken to return normally.
\<close>

record 'f collaborators =
  package_bound_init :: "string \<Rightarrow> string option \<Rightarrow> string option \<Rightarrow> 'f Flask"
  has_static_folder :: "'f Flask \<Rightarrow> bool"
  send_static_file :: 'f
  find_package :: "string \<Rightarrow> string option \<times> string"
  get_debug_flag :: bool
  path_isabs :: "string \<Rightarrow> bool"
  path_abspath :: "string \<Rightarrow> string"
  path_join :: "string list \<Rightarrow> string"
  new_Map :: url_Map
  malformed_pattern :: "string \<Rightarrow> bool"
  conflicting_rule :: "rule \<Rightarrow> rule list \<Rightarrow> bool"

subsection \<open>\<open>setupmethod\<close> (lines 55 to 73)\<close>

definition setup_error_message :: string where
  "setup_error_message =
     ''A setup function was called after the first request was handled.''
     @ '' This usually indicates a bug in the application where a module''
     @ '' was not imported and decorators or other functionality was''
     @ '' called too late.'' @ [CHR 0x0A] @ ''To fix this make sure to import all your view''
     @ '' modules, database functions and similar things in one place''
     @ '' either before the first request or before the first request''
     @ '' handling function.''"

text \<open>
  \<open>setupmethod f\<close> is \<open>wrapper_func\<close>: it takes \<open>self\<close> and the arguments of the call,
  raises when \<open>self.debug and self._got_first_request\<close>, and calls \<open>f\<close> otherwise.
\<close>

definition setupmethod ::
  "('f Flask \<Rightarrow> 'a \<Rightarrow> error + 'r) \<Rightarrow> 'f Flask \<Rightarrow> 'a \<Rightarrow> error + 'r" where
  "setupmethod f self args =
     (if debug self \<and> got_first_request self
      then Inl (AssertionError setup_error_message)
      else f self args)"

subsection \<open>Registration of a rule\<close>

text \<open>
  Modelled from the spec: \<open>add_url_rule\<close> is called at line 225, and its body is not
  in the source.  Following "\<open>add(rule)\<close>: registers a compiled Rule; fails with a
  ConflictError [...] and fails with a ValidationError on malformed pattern syntax"
  and "remaining ties preserve registration order", it appends the rule to the rules
  of the map and stores the handler under the endpoint in \<open>_view_functions\<close>; the two
  checks are parameters.
\<close>

definition add_url_rule_body ::
  "'f collaborators \<Rightarrow> 'f Flask \<Rightarrow> rule \<times> 'f \<Rightarrow> error + 'f Flask" where
  "add_url_rule_body E self args =
     (case args of (r, view_func) \<Rightarrow>
        if malformed_pattern E (rule_string r) then Inl ValidationError
        else if conflicting_rule E r (rules (url_map self)) then Inl ConflictError
        else Inr (self\<lparr>
          url_map := (url_map self)\<lparr>rules := rules (url_map self) @ [r]\<rparr>,
          view_functions := (view_functions self)(endpoint r \<mapsto> view_func)\<rparr>))"

text \<open>The method as the application offers it: the body under \<open>setupmethod\<close>.\<close>

definition add_url_rule ::
  "'f collaborators \<Rightarrow> 'f Flask \<Rightarrow> rule \<times> 'f \<Rightarrow> error + 'f Flask" where
  "add_url_rule E = setupmethod (add_url_rule_body E)"

subsection \<open>Registration of hooks and error handlers\<close>

text \<open>
  Modelled from the spec: the registries of lines 196 and 210 to 213 are filled by
  methods whose bodies are not in the source.  A registry of hooks is a dictionary
  from a scope (\<open>None\<close> for the application, a name for a blueprint) to the list of
  the hooks of that scope, and hooks run "in registration order": \<open>append_hook\<close> puts
  a hook at the end of the list of its scope, which it creates when the scope has
  none yet.
\<close>

definition append_hook :: "('k \<rightharpoonup> 'f list) \<Rightarrow> 'k \<Rightarrow> 'f \<Rightarrow> ('k \<rightharpoonup> 'f list)" where
  "append_hook d key hook =
     d(key \<mapsto> (case d key of None \<Rightarrow> [] | Some hooks \<Rightarrow> hooks) @ [hook])"

text \<open>
  Modelled from the spec: \<open>before_request(hook)\<close> of the Registration API, whose body
  is missing: "run before-request hooks in registration order (global hooks, then
  blueprint-scoped hooks [...])".  The hook becomes the last of the global hooks.
\<close>

definition before_request_body :: "'f Flask \<Rightarrow> 'f \<Rightarrow> error + 'f Flask" where
  "before_request_body self hook =
     Inr (self\<lparr>before_request_funcs := append_hook (before_request_funcs self) None hook\<rparr>)"

definition before_request :: "'f Flask \<Rightarrow> 'f \<Rightarrow> error + 'f Flask" where
  "before_request = setupmethod before_request_body"

text \<open>
  Modelled from the spec: \<open>after_request(hook)\<close> of the Registration API, whose body is
  missing: "run after-request hooks in reverse registration order".  The registry
  keeps the order of registration.
\<close>

definition after_request_body :: "'f Flask \<Rightarrow> 'f \<Rightarrow> error + 'f Flask" where
  "after_request_body self hook =
     Inr (self\<lparr>after_request_funcs := append_hook (after_request_funcs self) None hook\<rparr>)"

definition after_request :: "'f Flask \<Rightarrow> 'f \<Rightarrow> error + 'f Flask" where
  "after_request = setupmethod after_request_body"

text \<open>
  Modelled from the spec: \<open>teardown_request(hook)\<close> of the Registration API, whose
  body is missing: pop "runs registered teardown callbacks in registration order".
\<close>

definition teardown_request_body :: "'f Flask \<Rightarrow> 'f \<Rightarrow> error + 'f Flask" where
  "teardown_request_body self hook =
     Inr (self\<lparr>teardown_request_funcs := append_hook (teardown_request_funcs self) None hook\<rparr>)"

definition teardown_request :: "'f Flask \<Rightarrow> 'f \<Rightarrow> error + 'f Flask" where
  "teardown_request = setupmethod teardown_request_body"

text \<open>
  Modelled from the spec: \<open>teardown_appcontext(hook)\<close> of the Registration API, whose
  body is missing, under the same sentence; \<open>_teardown_appcontext_funcs\<close> is a list
  (line 213).
\<close>

definition teardown_appcontext_body :: "'f Flask \<Rightarrow> 'f \<Rightarrow> error + 'f Flask" where
  "teardown_appcontext_body self hook =
     Inr (self\<lparr>teardown_appcontext_funcs := teardown_appcontext_funcs self @ [hook]\<rparr>)"

definition teardown_appcontext :: "'f Flask \<Rightarrow> 'f \<Rightarrow> error + 'f Flask" where
  "teardown_appcontext = setupmethod teardown_appcontext_body"

text \<open>
  Modelled from the spec: \<open>errorhandler(code_or_exception_type, hook)\<close> of the
  Registration API, whose body is missing: the "registered error-handler table"
  (\<open>_error_handlers\<close>, line 196) gets the hook under the code or exception type.
\<close>

definition errorhandler_body :: "'f Flask \<Rightarrow> handler_key \<times> 'f \<Rightarrow> error + 'f Flask" where
  "errorhandler_body self args =
     (case args of (key, hook) \<Rightarrow>
        Inr (self\<lparr>error_handlers := (error_handlers self)(key \<mapsto> hook)\<rparr>))"

definition errorhandler :: "'f Flask \<Rightarrow> handler_key \<times> 'f \<Rightarrow> error + 'f Flask" where
  "errorhandler = setupmethod errorhandler_body"

text \<open>
  A call of one of the six registration methods, and a run of such calls in order,
  which the first exception ends.
\<close>

datatype 'f registration =
    Add_url_rule rule 'f
  | Before_request 'f
  | After_request 'f
  | Teardown_request 'f
  | Teardown_appcontext 'f
  | Errorhandler handler_key 'f

fun register :: "'f collaborators \<Rightarrow> 'f Flask \<Rightarrow> 'f registration \<Rightarrow> error + 'f Flask" where
  "register E self (Add_url_rule r view_func) = add_url_rule E self (r, view_func)"
| "register E self (Before_request hook) = before_request self hook"
| "register E self (After_request hook) = after_request self hook"
| "register E self (Teardown_request hook) = teardown_request self hook"
| "register E self (Teardown_appcontext hook) = teardown_appcontext self hook"
| "register E self (Errorhandler key hook) = errorhandler self (key, hook)"

fun register_all ::
  "'f collaborators \<Rightarrow> 'f Flask \<Rightarrow> 'f registration list \<Rightarrow> error + 'f Flask" where
  "register_all E self [] = Inr self"
| "register_all E self (c # cs) =
     (case register E self c of
        Inl e \<Rightarrow> Inl e
      | Inr self' \<Rightarrow> register_all E self' cs)"

subsection \<open>\<open>make_config\<close> and \<open>auto_find_instance_path\<close> (lines 242 to 270)\<close>

definition make_config :: "'f Flask \<Rightarrow> bool \<Rightarrow> Config" where
  "make_config self instance_relative =
     Config (if instance_relative then instance_path self else root_path self)
            (default_config self)"

definition auto_find_instance_path :: "'f collaborators \<Rightarrow> 'f Flask \<Rightarrow> string" where
  "auto_find_instance_path E self =
     (case find_package E (import_name self) of
        (None, package_path) \<Rightarrow>
          path_abspath E (path_join E [package_path, ''instance''])
      | (Some prefix, package_path) \<Rightarrow>
          path_abspath E (path_join E [prefix, ''var'', name self @ ''-instance'']))"

subsection \<open>\<open>__init__\<close> (lines 157 to 237)\<close>

text \<open>The arguments of the constructor, under their names in the source.\<close>

record init_args =
  arg_import_name :: string
  arg_static_url_path :: "string option"
  arg_static_folder :: "string option"
  arg_static_host :: "string option"
  arg_host_matching :: bool
  arg_subdomain_matching :: bool
  arg_template_folder :: "string option"
  arg_instance_path :: "string option"
  arg_instance_relative_config :: bool
  arg_root_path :: "string option"

text \<open>Lines 170 to 181: the base initialiser, then the two static attributes.\<close>

definition init_static :: "'f collaborators \<Rightarrow> init_args \<Rightarrow> 'f Flask" where
  "init_static E a =
     (let self = package_bound_init E (arg_import_name a) (arg_template_folder a)
                   (arg_root_path a);
          self = (case arg_static_url_path a of
                    None \<Rightarrow> self
                  | Some p \<Rightarrow> self\<lparr>static_url_path := p\<rparr>);
          self = (case arg_static_folder a of
                    None \<Rightarrow> self
                  | Some d \<Rightarrow> self\<lparr>static_folder := Some d\<rparr>)
      in self)"

definition instance_path_error :: "string \<Rightarrow> string" where
  "instance_path_error p =
     ''If an instance path is provided it must be absolute.''
     @ '' A relative path was given instead: '' @ p"

text \<open>Lines 183 to 191: the instance path, found or checked, then stored.\<close>

definition init_instance_path ::
  "'f collaborators \<Rightarrow> init_args \<Rightarrow> 'f Flask \<Rightarrow> error + 'f Flask" where
  "init_instance_path E a self =
     (case arg_instance_path a of
        None \<Rightarrow> Inr (self\<lparr>instance_path := auto_find_instance_path E self\<rparr>)
      | Some p \<Rightarrow>
          if \<not> path_isabs E p then Inl (ValueError (instance_path_error p))
          else Inr (self\<lparr>instance_path := p\<rparr>))"

text \<open>Lines 197 to 206: the map, its two flags and the seven converters.\<close>

definition init_url_map :: "'f collaborators \<Rightarrow> init_args \<Rightarrow> url_Map" where
  "init_url_map E a =
     (let m = new_Map E;
          m = m\<lparr>host_matching := arg_host_matching a\<rparr>;
          m = m\<lparr>subdomain_matching := arg_subdomain_matching a\<rparr>;
          m = m\<lparr>converters := (converters m)(''default'' \<mapsto> UnicodeConverter)\<rparr>;
          m = m\<lparr>converters := (converters m)(''string'' \<mapsto> UnicodeConverter)\<rparr>;
          m = m\<lparr>converters := (converters m)(''any'' \<mapsto> AnyConverter)\<rparr>;
          m = m\<lparr>converters := (converters m)(''path'' \<mapsto> PathConverter)\<rparr>;
          m = m\<lparr>converters := (converters m)(''int'' \<mapsto> IntegerConverter)\<rparr>;
          m = m\<lparr>converters := (converters m)(''float'' \<mapsto> FloatConverter)\<rparr>;
          m = m\<lparr>converters := (converters m)(''uuid'' \<mapsto> UUIDConverter)\<rparr>
      in m)"

text \<open>Lines 193 to 222: the configuration and the registries, all empty.\<close>

definition init_registries ::
  "'f collaborators \<Rightarrow> init_args \<Rightarrow> 'f Flask \<Rightarrow> 'f Flask" where
  "init_registries E a self =
     (let self = self\<lparr>config := make_config self (arg_instance_relative_config a)\<rparr>
      in self\<lparr>
        view_functions := Map.empty,
        error_handlers := Map.empty,
        url_map := init_url_map E a,
        blueprints := Map.empty,
        before_request_funcs := Map.empty,
        after_request_funcs := Map.empty,
        teardown_request_funcs := Map.empty,
        teardown_appcontext_funcs := [],
        template_context_processors := Map.empty,
        shell_context_processors := [],
        url_value_preprocessors := Map.empty,
        url_default_functions := Map.empty,
        extensions := Map.empty,
        got_first_request := False,
        before_first_request_functions := []\<rparr>)"

text \<open>Lines 224 to 230: the route of the static files.\<close>

definition init_static_route ::
  "'f collaborators \<Rightarrow> init_args \<Rightarrow> 'f Flask \<Rightarrow> error + 'f Flask" where
  "init_static_route E a self =
     (if has_static_folder E self
      then add_url_rule E self
             (\<lparr>rule_string = static_url_path self @ ''/<path:filename>'',
               endpoint = ''static'',
               host = arg_static_host a\<rparr>,
              send_static_file E)
      else Inr self)"

text \<open>Lines 232 to 237.\<close>

definition init_finish :: "'f collaborators \<Rightarrow> 'f Flask \<Rightarrow> 'f Flask" where
  "init_finish E self =
     (let self = self\<lparr>logger := None\<rparr>;
          self = self\<lparr>name := import_name self\<rparr>;
          self = self\<lparr>debug := get_debug_flag E\<rparr>
      in self\<lparr>cli_commands := Map.empty\<rparr>)"

text \<open>The constructor: the object it leaves, or the exception it raises.\<close>

definition init :: "'f collaborators \<Rightarrow> init_args \<Rightarrow> error + 'f Flask" where
  "init E a =
     (case init_instance_path E a (init_static E a) of
        Inl e \<Rightarrow> Inl e
      | Inr self \<Rightarrow>
          (case init_static_route E a (init_registries E a self) of
             Inl e \<Rightarrow> Inl e
           | Inr self \<Rightarrow> Inr (init_finish E self)))"

section \<open>Context stacks\<close>

text \<open>
  The stacks of application and request contexts live in \<open>flask/ctx.py\<close> and
  \<open>flask/globals.py\<close>; the source imports them (lines 18 and 19) and holds none of
  their code.  This section follows sections 3 and 4.3 of the specification.  An
  execution unit is named by a number.  A stack is a list with its top first, so the
  depth of the specification's state \<open>Active(depth=n)\<close> is the length of the list and
  \<open>Empty\<close> is the empty list.
\<close>

type_synonym unit_id = nat

text \<open>
  Modelled from the spec: the Application Context, "owning application reference,
  lazily-initialized extension-scoped storage"; the class \<open>AppContext\<close> is missing.
  \<open>app_ctx_id\<close> is the identity of the instance, and the storage is \<open>None\<close> until it is
  first used.  The count of nested pushes is not a field: every push creates an
  instance of its own, so the count of a unit is the depth of its stack.
\<close>

record ('app, 'g) app_context =
  app_ctx_id :: nat
  app_ctx_app :: 'app
  app_ctx_g :: "'g option"

text \<open>
  Modelled from the spec: the Request Context, "request object, [...] owning
  Application Context", with the flag "owned" of section 4.3; the class
  \<open>RequestContext\<close> is missing.
\<close>

record ('app, 'req) request_context =
  req_ctx_id :: nat
  req_ctx_request :: 'req
  req_ctx_app :: 'app
  owns_app_ctx :: bool

text \<open>
  Modelled from the spec: the Context Stack, "one logical stack per concurrent
  execution unit", "two independent stacks (Application, Request)"; the objects
  \<open>_app_ctx_stack\<close> and \<open>_request_ctx_stack\<close> are missing.  \<open>next_ctx_id\<close> is the identity
  the next context instance gets.
\<close>

record ('app, 'g, 'req) context_stacks =
  app_stack :: "unit_id \<Rightarrow> ('app, 'g) app_context list"
  request_stack :: "unit_id \<Rightarrow> ('app, 'req) request_context list"
  next_ctx_id :: nat

text \<open>
  Modelled from the spec: the push of an Application Context, missing from the
  source: "push increments depth", "pushing always creates a new context instance".
\<close>

definition push_app_context ::
  "unit_id \<Rightarrow> 'app \<Rightarrow> ('app, 'g, 'req) context_stacks \<Rightarrow> ('app, 'g, 'req) context_stacks" where
  "push_app_context u a S =
     S\<lparr>app_stack := (app_stack S)
          (u := \<lparr>app_ctx_id = next_ctx_id S, app_ctx_app = a, app_ctx_g = None\<rparr>
                # app_stack S u),
       next_ctx_id := Suc (next_ctx_id S)\<rparr>"

text \<open>
  Modelled from the spec: the pop of an Application Context, missing from the source:
  "pop decrements; at depth reaching 0, runs registered teardown callbacks".  The
  state machine has no pop in \<open>Empty\<close>, which is the result \<open>None\<close>.  The result holds
  the context popped, whether the depth reached 0 (the callbacks are then due; they
  act on the application, not on the stacks) and the stacks left.
\<close>

definition pop_app_context ::
  "unit_id \<Rightarrow> ('app, 'g, 'req) context_stacks
   \<Rightarrow> (('app, 'g) app_context \<times> bool \<times> ('app, 'g, 'req) context_stacks) option" where
  "pop_app_context u S =
     (case app_stack S u of
        [] \<Rightarrow> None
      | c # cs \<Rightarrow> Some (c, cs = [], S\<lparr>app_stack := (app_stack S)(u := cs)\<rparr>))"

text \<open>
  Modelled from the spec: the accessor of the current application, missing from the
  source: accessors "proxy to the top of the respective stack for the calling
  execution unit; they fail with a ContextMissingError (distinct from returning
  null) when the stack is empty".
\<close>

definition current_app ::
  "unit_id \<Rightarrow> ('app, 'g, 'req) context_stacks \<Rightarrow> error + ('app, 'g) app_context" where
  "current_app u S =
     (case app_stack S u of
        [] \<Rightarrow> Inl ContextMissingError
      | c # cs \<Rightarrow> Inr c)"

text \<open>
  Modelled from the spec: the accessor of the current request, missing from the
  source, under the same sentence of section 4.3 as \<open>current_app\<close>.
\<close>

definition current_request ::
  "unit_id \<Rightarrow> ('app, 'g, 'req) context_stacks \<Rightarrow> error + ('app, 'req) request_context" where
  "current_request u S =
     (case request_stack S u of
        [] \<Rightarrow> Inl ContextMissingError
      | r # rs \<Rightarrow> Inr r)"

text \<open>
  Modelled from the spec: the push of a Request Context, missing from the source: "A
  Request Context push that finds no Application Context active pushes one
  implicitly first and flags it as owned".
\<close>

definition push_request_context ::
  "unit_id \<Rightarrow> 'app \<Rightarrow> 'req \<Rightarrow> ('app, 'g, 'req) context_stacks
   \<Rightarrow> ('app, 'g, 'req) context_stacks" where
  "push_request_context u a rq S =
     (let owned = (app_stack S u = []);
          S = (if owned then push_app_context u a S else S)
      in S\<lparr>request_stack := (request_stack S)
             (u := \<lparr>req_ctx_id = next_ctx_id S, req_ctx_request = rq, req_ctx_app = a,
                     owns_app_ctx = owned\<rparr> # request_stack S u),
           next_ctx_id := Suc (next_ctx_id S)\<rparr>)"

text \<open>
  Modelled from the spec: the pop of a Request Context, missing from the source: "the
  Request Context's own pop will also pop the implicit Application Context".
\<close>

definition pop_request_context ::
  "unit_id \<Rightarrow> ('app, 'g, 'req) context_stacks
   \<Rightarrow> (('app, 'req) request_context \<times> ('app, 'g, 'req) context_stacks) option" where
  "pop_request_context u S =
     (case request_stack S u of
        [] \<Rightarrow> None
      | r # rs \<Rightarrow>
          (let S = S\<lparr>request_stack := (request_stack S)(u := rs)\<rparr>
           in if owns_app_ctx r
              then (case pop_app_context u S of
                      None \<Rightarrow> None
                    | Some (c, due, S') \<Rightarrow> Some (r, S'))
              else Some (r, S)))"

text \<open>
  Pushing one Application Context for each application of a list, first to last, and
  popping a number of times; a pop in \<open>Empty\<close> ends the run with \<open>None\<close>.
\<close>

fun push_app_contexts ::
  "unit_id \<Rightarrow> 'app list \<Rightarrow> ('app, 'g, 'req) context_stacks \<Rightarrow> ('app, 'g, 'req) context_stacks" where
  "push_app_contexts u [] S = S"
| "push_app_contexts u (a # as) S = push_app_contexts u as (push_app_context u a S)"

fun pop_app_contexts ::
  "unit_id \<Rightarrow> nat \<Rightarrow> ('app, 'g, 'req) context_stacks \<Rightarrow> ('app, 'g, 'req) context_stacks option" where
  "pop_app_contexts u 0 S = Some S"
| "pop_app_contexts u (Suc n) S =
     (case pop_app_context u S of
        None \<Rightarrow> None
      | Some (c, due, S') \<Rightarrow> pop_app_contexts u n S')"

text \<open>
  The instances that \<open>push_app_contexts\<close> creates, in the order of the pushes, when the
  first of them gets the identity \<open>n\<close>.
\<close>

fun new_app_contexts :: "nat \<Rightarrow> 'app list \<Rightarrow> ('app, 'g) app_context list" where
  "new_app_contexts n [] = []"
| "new_app_contexts n (a # as) =
     \<lparr>app_ctx_id = n, app_ctx_app = a, app_ctx_g = None\<rparr> # new_app_contexts (Suc n) as"

text \<open>The stacks before any push: every unit is in \<open>Empty\<close>.\<close>

definition empty_stacks :: "(string, unit, string) context_stacks" where
  "empty_stacks = \<lparr>app_stack = (\<lambda>u. []), request_stack = (\<lambda>u. []), next_ctx_id = 0\<rparr>"

section \<open>A sample application\<close>

text \<open>
  One choice of the collaborators, on which the theorems are exercised: callables
  are named by strings, the base initialiser leaves an object with no static
  folder, the package \<open>n\<close> is found at \<open>/srv/n\<close> with no prefix, a path is absolute
  when it starts with a slash, and \<open>Map()\<close> has no rule and no converter.
\<close>

definition sample_object :: "string \<Rightarrow> string option \<Rightarrow> string option \<Rightarrow> string Flask" where
  "sample_object n tf rp =
     \<lparr>import_name = n,
      root_path = (case rp of None \<Rightarrow> ''/srv/'' @ n | Some r \<Rightarrow> r),
      template_folder = tf,
      static_url_path = ''/static'',
      static_folder = None,
      default_config = Map.empty,
      instance_path = [],
      config = Config [] Map.empty,
      view_functions = Map.empty,
      error_handlers = Map.empty,
      url_map = \<lparr>host_matching = False, subdomain_matching = False,
                 converters = Map.empty, rules = []\<rparr>,
      blueprints = Map.empty,
      before_request_funcs = Map.empty,
      after_request_funcs = Map.empty,
      teardown_request_funcs = Map.empty,
      teardown_appcontext_funcs = [],
      template_context_processors = Map.empty,
      shell_context_processors = [],
      url_value_preprocessors = Map.empty,
      url_default_functions = Map.empty,
      extensions = Map.empty,
      got_first_request = False,
      before_first_request_functions = [],
      logger = None,
      name = n,
      debug = False,
      cli_commands = Map.empty\<rparr>"

definition sample_isabs :: "string \<Rightarrow> bool" where
  "sample_isabs p = (case p of [] \<Rightarrow> False | c # cs \<Rightarrow> c = CHR ''/'')"

definition sample_collaborators :: "string collaborators" where
  "sample_collaborators =
     \<lparr>package_bound_init = sample_object,
      has_static_folder = (\<lambda>self. static_folder self \<noteq> None),
      send_static_file = ''send_static_file'',
      find_package = (\<lambda>n. (None, ''/srv/'' @ n)),
      get_debug_flag = True,
      path_isabs = sample_isabs,
      path_abspath = (\<lambda>p. if sample_isabs p then p else ''/cwd/'' @ p),
      path_join = (\<lambda>ps. case ps of [] \<Rightarrow> [] | q # qs \<Rightarrow> foldl (\<lambda>x y. x @ ''/'' @ y) q qs),
      new_Map = \<lparr>host_matching = False, subdomain_matching = False,
                 converters = Map.empty, rules = []\<rparr>,
      malformed_pattern = (\<lambda>p. False),
      conflicting_rule = (\<lambda>r rs. False)\<rparr>"

text \<open>The call \<open>Flask("shop")\<close>: every argument but the first at its default.\<close>

definition sample_args :: init_args where
  "sample_args =
     \<lparr>arg_import_name = ''shop'',
      arg_static_url_path = None,
      arg_static_folder = Some ''static'',
      arg_static_host = None,
      arg_host_matching = False,
      arg_subdomain_matching = False,
      arg_template_folder = Some ''templates'',
      arg_instance_path = None,
      arg_instance_relative_config = False,
      arg_root_path = None\<rparr>"

definition sample_rule :: rule where
  "sample_rule = \<lparr>rule_string = ''/cart'', endpoint = ''cart'', host = None\<rparr>"

text \<open>The names under which lines 200 to 206 store a converter.\<close>

definition converter_names :: "string set" where
  "converter_names = {''default'', ''string'', ''any'', ''path'', ''int'', ''float'', ''uuid''}"

section \<open>The setup guard\<close>

text \<open>What the wrapper does with any method: the guard first, the method otherwise.\<close>

lemma setupmethod_late:
  "debug self \<and> got_first_request self \<Longrightarrow>
     setupmethod f self args = Inl (AssertionError setup_error_message)"
  by (simp add: setupmethod_def)

lemma setupmethod_early:
  "\<not> (debug self \<and> got_first_request self) \<Longrightarrow> setupmethod f self args = f self args"
  by (auto simp: setupmethod_def)

text \<open>None of the bodies raises an \<open>AssertionError\<close> of its own.\<close>

lemma add_url_rule_body_no_assertion:
  "add_url_rule_body E self args \<noteq> Inl (AssertionError m)"
  by (simp add: add_url_rule_body_def split: prod.splits)

lemma hook_bodies_no_assertion:
  "before_request_body self hook \<noteq> Inl (AssertionError m)"
  "after_request_body self hook \<noteq> Inl (AssertionError m)"
  "teardown_request_body self hook \<noteq> Inl (AssertionError m)"
  "teardown_appcontext_body self hook \<noteq> Inl (AssertionError m)"
  "errorhandler_body self args \<noteq> Inl (AssertionError m)"
  by (simp_all add: before_request_body_def after_request_body_def
        teardown_request_body_def teardown_appcontext_body_def errorhandler_body_def
        split: prod.splits)

lemma wrapped_assertion_iff:
  assumes "\<And>m. f self args \<noteq> Inl (AssertionError m)"
  shows "(\<exists>m. setupmethod f self args = Inl (AssertionError m))
           \<longleftrightarrow> (debug self \<and> got_first_request self)"
  using assms by (auto simp: setupmethod_def)

text \<open>
  C1.  Each of the registration methods \<open>add_url_rule\<close>, \<open>before_request\<close>,
  \<open>after_request\<close>, \<open>teardown_request\<close>, \<open>teardown_appcontext\<close> and \<open>errorhandler\<close>,
  wrapped by \<open>setupmethod\<close>, raises an \<open>AssertionError\<close> if and only if the
  application is in debug mode and \<open>_got_first_request\<close> is true; the error is then
  the setup error of lines 62 to 70.  In every other case the call performs the
  registration: the rule is appended to the rules of the map and its view stored
  under the endpoint (a malformed or conflicting rule is refused by the map's own
  error instead), the hook is appended to the hooks of its kind, the error handler
  is stored under its code or exception type; nothing else of the application
  changes.
\<close>

theorem registration_setup_guard:
  fixes self :: "'f Flask"
  shows
    "((\<exists>m. add_url_rule E self (r, v) = Inl (AssertionError m))
        \<longleftrightarrow> (debug self \<and> got_first_request self))
   \<and> ((\<exists>m. before_request self h = Inl (AssertionError m))
        \<longleftrightarrow> (debug self \<and> got_first_request self))
   \<and> ((\<exists>m. after_request self h = Inl (AssertionError m))
        \<longleftrightarrow> (debug self \<and> got_first_request self))
   \<and> ((\<exists>m. teardown_request self h = Inl (AssertionError m))
        \<longleftrightarrow> (debug self \<and> got_first_request self))
   \<and> ((\<exists>m. teardown_appcontext self h = Inl (AssertionError m))
        \<longleftrightarrow> (debug self \<and> got_first_request self))
   \<and> ((\<exists>m. errorhandler self (k, h) = Inl (AssertionError m))
        \<longleftrightarrow> (debug self \<and> got_first_request self))
   \<and> (debug self \<and> got_first_request self \<longrightarrow>
        add_url_rule E self (r, v) = Inl (AssertionError setup_error_message)
      \<and> before_request self h = Inl (AssertionError setup_error_message)
      \<and> after_request self h = Inl (AssertionError setup_error_message)
      \<and> teardown_request self h = Inl (AssertionError setup_error_message)
      \<and> teardown_appcontext self h = Inl (AssertionError setup_error_message)
      \<and> errorhandler self (k, h) = Inl (AssertionError setup_error_message))
   \<and> (\<not> (debug self \<and> got_first_request self) \<longrightarrow>
        add_url_rule E self (r, v) =
          (if malformed_pattern E (rule_string r) then Inl ValidationError
           else if conflicting_rule E r (rules (url_map self)) then Inl ConflictError
           else Inr (self\<lparr>
             url_map := (url_map self)\<lparr>rules := rules (url_map self) @ [r]\<rparr>,
             view_functions := (view_functions self)(endpoint r \<mapsto> v)\<rparr>))
      \<and> before_request self h =
          Inr (self\<lparr>before_request_funcs :=
            (before_request_funcs self)
              (None \<mapsto> (case before_request_funcs self None of
                           None \<Rightarrow> [] | Some hs \<Rightarrow> hs) @ [h])\<rparr>)
      \<and> after_request self h =
          Inr (self\<lparr>after_request_funcs :=
            (after_request_funcs self)
              (None \<mapsto> (case after_request_funcs self None of
                           None \<Rightarrow> [] | Some hs \<Rightarrow> hs) @ [h])\<rparr>)
      \<and> teardown_request self h =
          Inr (self\<lparr>teardown_request_funcs :=
            (teardown_request_funcs self)
              (None \<mapsto> (case teardown_request_funcs self None of
                           None \<Rightarrow> [] | Some hs \<Rightarrow> hs) @ [h])\<rparr>)
      \<and> teardown_appcontext self h =
          Inr (self\<lparr>teardown_appcontext_funcs := teardown_appcontext_funcs self @ [h]\<rparr>)
      \<and> errorhandler self (k, h) =
          Inr (self\<lparr>error_handlers := (error_handlers self)(k \<mapsto> h)\<rparr>))"
proof -
  have iffs:
    "(\<exists>m. add_url_rule E self (r, v) = Inl (AssertionError m))
        \<longleftrightarrow> (debug self \<and> got_first_request self)"
    "(\<exists>m. before_request self h = Inl (AssertionError m))
        \<longleftrightarrow> (debug self \<and> got_first_request self)"
    "(\<exists>m. after_request self h = Inl (AssertionError m))
        \<longleftrightarrow> (debug self \<and> got_first_request self)"
    "(\<exists>m. teardown_request self h = Inl (AssertionError m))
        \<longleftrightarrow> (debug self \<and> got_first_request self)"
    "(\<exists>m. teardown_appcontext self h = Inl (AssertionError m))
        \<longleftrightarrow> (debug self \<and> got_first_request self)"
    "(\<exists>m. errorhandler self (k, h) = Inl (AssertionError m))
        \<longleftrightarrow> (debug self \<and> got_first_request self)"
    unfolding add_url_rule_def before_request_def after_request_def teardown_request_def
      teardown_appcontext_def errorhandler_def
    by (rule wrapped_assertion_iff, rule add_url_rule_body_no_assertion hook_bodies_no_assertion)+
  have late:
    "add_url_rule E self (r, v) = Inl (AssertionError setup_error_message)
      \<and> before_request self h = Inl (AssertionError setup_error_message)
      \<and> after_request self h = Inl (AssertionError setup_error_message)
      \<and> teardown_request self h = Inl (AssertionError setup_error_message)
      \<and> teardown_appcontext self h = Inl (AssertionError setup_error_message)
      \<and> errorhandler self (k, h) = Inl (AssertionError setup_error_message)"
    if "debug self \<and> got_first_request self"
    unfolding add_url_rule_def before_request_def after_request_def teardown_request_def
      teardown_appcontext_def errorhandler_def
    using that by (simp add: setupmethod_late)
  have early:
    "add_url_rule E self (r, v) =
          (if malformed_pattern E (rule_string r) then Inl ValidationError
           else if conflicting_rule E r (rules (url_map self)) then Inl ConflictError
           else Inr (self\<lparr>
             url_map := (url_map self)\<lparr>rules := rules (url_map self) @ [r]\<rparr>,
             view_functions := (view_functions self)(endpoint r \<mapsto> v)\<rparr>))
      \<and> before_request self h =
          Inr (self\<lparr>before_request_funcs :=
            (before_request_funcs self)
              (None \<mapsto> (case before_request_funcs self None of
                           None \<Rightarrow> [] | Some hs \<Rightarrow> hs) @ [h])\<rparr>)
      \<and> after_request self h =
          Inr (self\<lparr>after_request_funcs :=
            (after_request_funcs self)
              (None \<mapsto> (case after_request_funcs self None of
                           None \<Rightarrow> [] | Some hs \<Rightarrow> hs) @ [h])\<rparr>)
      \<and> teardown_request self h =
          Inr (self\<lparr>teardown_request_funcs :=
            (teardown_request_funcs self)
              (None \<mapsto> (case teardown_request_funcs self None of
                           None \<Rightarrow> [] | Some hs \<Rightarrow> hs) @ [h])\<rparr>)
      \<and> teardown_appcontext self h =
          Inr (self\<lparr>teardown_appcontext_funcs := teardown_appcontext_funcs self @ [h]\<rparr>)
      \<and> errorhandler self (k, h) =
          Inr (self\<lparr>error_handlers := (error_handlers self)(k \<mapsto> h)\<rparr>)"
    if "\<not> (debug self \<and> got_first_request self)"
    unfolding add_url_rule_def before_request_def after_request_def teardown_request_def
      teardown_appcontext_def errorhandler_def
    using that
    by (simp add: setupmethod_early add_url_rule_body_def before_request_body_def
          after_request_body_def teardown_request_body_def teardown_appcontext_body_def
          errorhandler_body_def append_hook_def)
  from iffs late early show ?thesis by blast
qed

text \<open>
  On the sample object in debug mode: after the first request the registration of
  a rule and of a hook are refused; before it the rule and its view, the hook and
  the error handler are registered.
\<close>

theorem registration_setup_guard_witness:
  "add_url_rule sample_collaborators
     ((sample_object ''shop'' None None)\<lparr>debug := True, got_first_request := True\<rparr>)
     (sample_rule, ''cart_view'')
     = Inl (AssertionError setup_error_message)
   \<and> before_request
       ((sample_object ''shop'' None None)\<lparr>debug := True, got_first_request := True\<rparr>)
       ''login''
     = Inl (AssertionError setup_error_message)
   \<and> (\<exists>app. add_url_rule sample_collaborators
               ((sample_object ''shop'' None None)\<lparr>debug := True\<rparr>)
               (sample_rule, ''cart_view'') = Inr app
            \<and> rules (url_map app) = [sample_rule]
            \<and> view_functions app ''cart'' = Some ''cart_view'')
   \<and> (\<exists>app. before_request ((sample_object ''shop'' None None)\<lparr>debug := True\<rparr>) ''login''
              = Inr app
            \<and> before_request_funcs app None = Some [''login''])
   \<and> (\<exists>app. errorhandler ((sample_object ''shop'' None None)\<lparr>debug := True\<rparr>)
              (Status_code 404, ''not_found'') = Inr app
            \<and> error_handlers app (Status_code 404) = Some ''not_found'')"
proof -
  let ?late = "(sample_object ''shop'' None None)\<lparr>debug := True, got_first_request := True\<rparr>"
  let ?early = "(sample_object ''shop'' None None)\<lparr>debug := True\<rparr>"
  have late: "debug ?late \<and> got_first_request ?late" by simp
  have early: "\<not> (debug ?early \<and> got_first_request ?early)"
    by (simp add: sample_object_def)
  note at_late = registration_setup_guard [where E = sample_collaborators and self = ?late
      and r = sample_rule and v = "''cart_view''" and h = "''login''" and k = "Status_code 404"]
  note at_early = registration_setup_guard [where E = sample_collaborators and self = ?early
      and r = sample_rule and v = "''cart_view''" and h = "''login''" and k = "Status_code 404"]
  note refused = at_late [THEN conjunct2, THEN conjunct2, THEN conjunct2, THEN conjunct2,
      THEN conjunct2, THEN conjunct2, THEN conjunct1, THEN mp, OF late]
  note performed = at_early [THEN conjunct2, THEN conjunct2, THEN conjunct2, THEN conjunct2,
      THEN conjunct2, THEN conjunct2, THEN conjunct2, THEN mp, OF early]
  from refused have r1: "add_url_rule sample_collaborators ?late (sample_rule, ''cart_view'')
      = Inl (AssertionError setup_error_message)"
    by (rule conjunct1)
  from refused have r2: "before_request ?late ''login''
      = Inl (AssertionError setup_error_message)"
    by (rule conjunct2 [THEN conjunct1])
  from performed have "add_url_rule sample_collaborators ?early (sample_rule, ''cart_view'') =
          (if malformed_pattern sample_collaborators (rule_string sample_rule)
           then Inl ValidationError
           else if conflicting_rule sample_collaborators sample_rule (rules (url_map ?early))
           then Inl ConflictError
           else Inr (?early\<lparr>
             url_map := (url_map ?early)\<lparr>rules := rules (url_map ?early) @ [sample_rule]\<rparr>,
             view_functions := (view_functions ?early)(endpoint sample_rule \<mapsto> ''cart_view'')\<rparr>))"
    by (rule conjunct1)
  then have d1: "\<exists>app. add_url_rule sample_collaborators ?early (sample_rule, ''cart_view'')
        = Inr app
      \<and> rules (url_map app) = [sample_rule]
      \<and> view_functions app ''cart'' = Some ''cart_view''"
    by (simp add: sample_collaborators_def sample_object_def sample_rule_def)
  from performed have "before_request ?early ''login'' =
          Inr (?early\<lparr>before_request_funcs :=
            (before_request_funcs ?early)
              (None \<mapsto> (case before_request_funcs ?early None of
                           None \<Rightarrow> [] | Some hs \<Rightarrow> hs) @ [''login''])\<rparr>)"
    by (rule conjunct2 [THEN conjunct1])
  then have d2: "\<exists>app. before_request ?early ''login'' = Inr app
      \<and> before_request_funcs app None = Some [''login'']"
    by (simp add: sample_object_def)
  note handled = registration_setup_guard [where E = sample_collaborators and self = ?early
      and r = sample_rule and v = "''cart_view''" and h = "''not_found''"
      and k = "Status_code 404", THEN conjunct2, THEN conjunct2, THEN conjunct2,
      THEN conjunct2, THEN conjunct2, THEN conjunct2, THEN conjunct2, THEN mp, OF early]
  from handled have "errorhandler ?early (Status_code 404, ''not_found'') =
          Inr (?early\<lparr>error_handlers :=
            (error_handlers ?early)(Status_code 404 \<mapsto> ''not_found'')\<rparr>)"
    by (rule conjunct2 [THEN conjunct2, THEN conjunct2, THEN conjunct2, THEN conjunct2])
  then have d3: "\<exists>app. errorhandler ?early (Status_code 404, ''not_found'') = Inr app
      \<and> error_handlers app (Status_code 404) = Some ''not_found''"
    by simp
  from r1 r2 d1 d2 d3 show ?thesis by (intro conjI)
qed

section \<open>The constructor\<close>

lemma init_Inr_D:
  assumes "init E a = Inr app"
  obtains s1 s2 where
    "init_instance_path E a (init_static E a) = Inr s1"
    "init_static_route E a (init_registries E a s1) = Inr s2"
    "app = init_finish E s2"
  using assms by (auto simp: init_def split: sum.splits)

lemma init_registries_got_first_request:
  "got_first_request (init_registries E a self) = False"
  by (simp add: init_registries_def Let_def)

lemma init_registries_instance_path:
  "instance_path (init_registries E a self) = instance_path self"
  by (simp add: init_registries_def Let_def)

lemma init_registries_url_map:
  "url_map (init_registries E a self) = init_url_map E a"
  by (simp add: init_registries_def Let_def)

lemma add_url_rule_body_frame:
  assumes "add_url_rule_body E self args = Inr self'"
  shows "got_first_request self' = got_first_request self"
    and "instance_path self' = instance_path self"
    and "converters (url_map self') = converters (url_map self)"
  using assms
  by (auto simp: add_url_rule_body_def split: prod.splits if_splits)

lemma init_static_route_frame:
  assumes "init_static_route E a self = Inr self'"
  shows "got_first_request self' = got_first_request self"
    and "instance_path self' = instance_path self"
    and "converters (url_map self') = converters (url_map self)"
  using assms add_url_rule_body_frame [of E self _ self']
  by (auto simp: init_static_route_def add_url_rule_def setupmethod_def split: if_splits)

lemma init_finish_frame:
  "got_first_request (init_finish E self) = got_first_request self"
  "instance_path (init_finish E self) = instance_path self"
  "url_map (init_finish E self) = url_map self"
  "debug (init_finish E self) = get_debug_flag E"
  by (simp_all add: init_finish_def Let_def)

text \<open>The sample call returns an application.\<close>

lemma sample_init:
  "\<exists>app. init sample_collaborators sample_args = Inr app"
  by (simp add: init_def init_instance_path_def init_static_def init_static_route_def
        init_registries_def add_url_rule_def setupmethod_def add_url_rule_body_def
        sample_args_def sample_collaborators_def Let_def)


text \<open>
  Before the first request no registration raises an \<open>AssertionError\<close>, and a
  registration leaves the flag of the first request as it was.
\<close>

lemma register_early:
  "\<not> got_first_request self \<Longrightarrow> register E self c \<noteq> Inl (AssertionError m)"
  by (cases c)
     (simp_all add: add_url_rule_def before_request_def after_request_def
        teardown_request_def teardown_appcontext_def errorhandler_def setupmethod_def
        add_url_rule_body_no_assertion hook_bodies_no_assertion)

lemma register_keeps_flag:
  "register E self c = Inr self' \<Longrightarrow> got_first_request self' = got_first_request self"
  by (cases c)
     (auto simp: add_url_rule_def before_request_def after_request_def
        teardown_request_def teardown_appcontext_def errorhandler_def setupmethod_def
        add_url_rule_body_def before_request_body_def after_request_body_def
        teardown_request_body_def teardown_appcontext_body_def errorhandler_body_def
        split: if_splits)

lemma register_all_early:
  "\<not> got_first_request self \<Longrightarrow> register_all E self cs \<noteq> Inl (AssertionError m)"
proof (induction cs arbitrary: self)
  case Nil
  then show ?case by simp
next
  case (Cons c cs)
  show ?case
  proof (cases "register E self c")
    case (Inl e)
    with register_early [OF Cons.prems, of E c m] show ?thesis by auto
  next
    case (Inr self')
    with Cons.prems have "\<not> got_first_request self'"
      by (simp add: register_keeps_flag)
    from Cons.IH [OF this] Inr show ?thesis by simp
  qed
qed

lemma register_all_keeps_flag:
  "register_all E self cs = Inr self' \<Longrightarrow> got_first_request self' = got_first_request self"
proof (induction cs arbitrary: self)
  case Nil
  then show ?case by simp
next
  case (Cons c cs)
  then show ?case
    by (auto split: sum.splits dest: register_keeps_flag)
qed

lemma init_got_first_request:
  assumes "init E a = Inr app"
  shows "got_first_request app = False"
proof -
  from assms obtain s1 s2 where
    route: "init_static_route E a (init_registries E a s1) = Inr s2"
    and app: "app = init_finish E s2"
    by (rule init_Inr_D)
  from route have "got_first_request s2 = False"
    by (simp add: init_static_route_frame(1) init_registries_got_first_request)
  with app show ?thesis
    by (simp add: init_finish_frame)
qed

text \<open>
  C10.  A freshly constructed application has \<open>_got_first_request = False\<close> (line
  221, kept by the rest of the constructor).  So whatever the debug flag is, as the
  constructor left it or set to any value \<open>d\<close> afterwards, no call of a
  registration method raises an \<open>AssertionError\<close>, neither the first call nor any
  call in a run of registrations (which keep the flag false), and a call of any
  method under \<open>setupmethod\<close> is the call of the method itself.
\<close>

theorem fresh_app_setup_never_raises:
  assumes "init E a = Inr app"
  shows "got_first_request app = False
       \<and> register E app c \<noteq> Inl (AssertionError m)
       \<and> register E (app\<lparr>debug := d\<rparr>) c \<noteq> Inl (AssertionError m)
       \<and> register_all E (app\<lparr>debug := d\<rparr>) cs \<noteq> Inl (AssertionError m)
       \<and> (\<forall>app'. register_all E (app\<lparr>debug := d\<rparr>) cs = Inr app'
             \<longrightarrow> got_first_request app' = False)
       \<and> setupmethod f (app\<lparr>debug := d\<rparr>) args = f (app\<lparr>debug := d\<rparr>) args"
proof -
  have flag: "got_first_request app = False"
    using assms by (rule init_got_first_request)
  then have flag_d: "\<not> got_first_request (app\<lparr>debug := d\<rparr>)" by simp
  from flag have one: "register E app c \<noteq> Inl (AssertionError m)"
    by (simp add: register_early)
  from flag_d have one_d: "register E (app\<lparr>debug := d\<rparr>) c \<noteq> Inl (AssertionError m)"
    by (rule register_early)
  from flag_d have run: "register_all E (app\<lparr>debug := d\<rparr>) cs \<noteq> Inl (AssertionError m)"
    by (rule register_all_early)
  have kept: "\<forall>app'. register_all E (app\<lparr>debug := d\<rparr>) cs = Inr app'
             \<longrightarrow> got_first_request app' = False"
    using flag_d by (auto dest: register_all_keeps_flag)
  from flag_d have any: "setupmethod f (app\<lparr>debug := d\<rparr>) args = f (app\<lparr>debug := d\<rparr>) args"
    by (simp add: setupmethod_def)
  from flag one one_d run kept any show ?thesis by (intro conjI)
qed

text \<open>
  On the sample application, whose debug flag the constructor turned on: the flag of
  the first request is off, and neither a registration nor a run of three
  registrations raises the setup error, with the debug flag on or switched off.
\<close>

theorem fresh_app_setup_never_raises_witness:
  "\<exists>app. init sample_collaborators sample_args = Inr app
      \<and> debug app
      \<and> got_first_request app = False
      \<and> register sample_collaborators app (Add_url_rule sample_rule ''cart_view'')
          \<noteq> Inl (AssertionError setup_error_message)
      \<and> register_all sample_collaborators (app\<lparr>debug := False\<rparr>)
            [Add_url_rule sample_rule ''cart_view'', Before_request ''login'',
             Errorhandler (Status_code 404) ''not_found'']
          \<noteq> Inl (AssertionError setup_error_message)"
proof -
  from sample_init obtain app where ok: "init sample_collaborators sample_args = Inr app"
    by (rule exE)
  then obtain s2 where "app = init_finish sample_collaborators s2"
    by (rule init_Inr_D)
  then have on: "debug app"
    by (simp add: init_finish_frame sample_collaborators_def)
  note fresh = fresh_app_setup_never_raises [OF ok,
      where c = "Add_url_rule sample_rule ''cart_view''" and m = setup_error_message
        and d = False
        and cs = "[Add_url_rule sample_rule ''cart_view'', Before_request ''login'',
                   Errorhandler (Status_code 404) ''not_found'']"
        and f = "add_url_rule_body sample_collaborators"
        and args = "(sample_rule, ''cart_view'')"]
  from fresh have flag: "got_first_request app = False"
    by (rule conjunct1)
  from fresh have one: "register sample_collaborators app (Add_url_rule sample_rule ''cart_view'')
          \<noteq> Inl (AssertionError setup_error_message)"
    by (rule conjunct2 [THEN conjunct1])
  from fresh have run: "register_all sample_collaborators (app\<lparr>debug := False\<rparr>)
            [Add_url_rule sample_rule ''cart_view'', Before_request ''login'',
             Errorhandler (Status_code 404) ''not_found'']
          \<noteq> Inl (AssertionError setup_error_message)"
    by (rule conjunct2 [THEN conjunct2, THEN conjunct2, THEN conjunct1])
  from ok on flag one run show ?thesis by (intro exI [of _ app] conjI)
qed

text \<open>The converter table that lines 197 to 206 leave in the map.\<close>

lemma init_url_map_converters:
  "converters (init_url_map E a) =
     (converters (new_Map E))
       (''default'' \<mapsto> UnicodeConverter, ''string'' \<mapsto> UnicodeConverter,
        ''any'' \<mapsto> AnyConverter, ''path'' \<mapsto> PathConverter,
        ''int'' \<mapsto> IntegerConverter, ''float'' \<mapsto> FloatConverter,
        ''uuid'' \<mapsto> UUIDConverter)"
  by (simp add: init_url_map_def Let_def)

lemma init_converters:
  assumes "init E a = Inr app"
  shows "converters (url_map app) = converters (init_url_map E a)"
proof -
  from assms obtain s1 s2 where
    route: "init_static_route E a (init_registries E a s1) = Inr s2"
    and app: "app = init_finish E s2"
    by (rule init_Inr_D)
  from route have "converters (url_map s2) = converters (init_url_map E a)"
    by (simp add: init_static_route_frame(3) init_registries_url_map)
  with app show ?thesis by (simp add: init_finish_frame)
qed

text \<open>
  C8.  After construction the converter table of the URL map has an entry for each
  of the names default, string, any, path, int, float and uuid; \<open>default\<close> and
  \<open>string\<close> are both the Unicode converter, and every converter class (string,
  integer, float, path, UUID, any) stands under one of the seven names.  The table
  is what \<open>Map()\<close> brought, overwritten at the seven names: its names are exactly
  these seven when \<open>Map()\<close>, whose code is not in the source, brings no name outside
  them.
\<close>

theorem init_converter_table:
  assumes "init E a = Inr app"
  shows "converter_names \<subseteq> dom (converters (url_map app))
       \<and> dom (converters (url_map app)) = dom (converters (new_Map E)) \<union> converter_names
       \<and> (dom (converters (new_Map E)) \<subseteq> converter_names
            \<longrightarrow> dom (converters (url_map app)) = converter_names)
       \<and> converters (url_map app) ''default'' = Some UnicodeConverter
       \<and> converters (url_map app) ''string'' = Some UnicodeConverter
       \<and> converters (url_map app) ''any'' = Some AnyConverter
       \<and> converters (url_map app) ''path'' = Some PathConverter
       \<and> converters (url_map app) ''int'' = Some IntegerConverter
       \<and> converters (url_map app) ''float'' = Some FloatConverter
       \<and> converters (url_map app) ''uuid'' = Some UUIDConverter
       \<and> (\<forall>n. n \<notin> converter_names
             \<longrightarrow> converters (url_map app) n = converters (new_Map E) n)
       \<and> (\<forall>c. \<exists>n \<in> converter_names. converters (url_map app) n = Some c)"
proof -
  let ?t = "converters (url_map app)"
  have t: "?t = (converters (new_Map E))
       (''default'' \<mapsto> UnicodeConverter, ''string'' \<mapsto> UnicodeConverter,
        ''any'' \<mapsto> AnyConverter, ''path'' \<mapsto> PathConverter,
        ''int'' \<mapsto> IntegerConverter, ''float'' \<mapsto> FloatConverter,
        ''uuid'' \<mapsto> UUIDConverter)"
    using init_converters [OF assms] by (simp add: init_url_map_converters)
  have d: "dom ?t = dom (converters (new_Map E)) \<union> converter_names"
    unfolding t converter_names_def by auto
  have v: "?t ''default'' = Some UnicodeConverter" "?t ''string'' = Some UnicodeConverter"
    "?t ''any'' = Some AnyConverter" "?t ''path'' = Some PathConverter"
    "?t ''int'' = Some IntegerConverter" "?t ''float'' = Some FloatConverter"
    "?t ''uuid'' = Some UUIDConverter"
    unfolding t by simp_all
  have rest: "\<forall>n. n \<notin> converter_names \<longrightarrow> ?t n = converters (new_Map E) n"
    unfolding t converter_names_def by simp
  have every: "\<forall>c. \<exists>n \<in> converter_names. ?t n = Some c"
  proof
    fix c
    show "\<exists>n \<in> converter_names. ?t n = Some c"
      using v by (cases c) (auto simp: converter_names_def)
  qed
  have incl: "converter_names \<subseteq> dom ?t" using d by simp
  have exact: "dom (converters (new_Map E)) \<subseteq> converter_names \<longrightarrow> dom ?t = converter_names"
    using d by auto
  from incl d exact v rest every show ?thesis by (intro conjI)
qed

text \<open>
  On the sample application, where \<open>Map()\<close> brings no converter: the table has the
  seven names and no other.
\<close>

theorem init_converter_table_witness:
  "\<exists>app. init sample_collaborators sample_args = Inr app
      \<and> dom (converters (url_map app))
          = {''default'', ''string'', ''any'', ''path'', ''int'', ''float'', ''uuid''}
      \<and> converters (url_map app) ''default'' = Some UnicodeConverter
      \<and> converters (url_map app) ''string'' = Some UnicodeConverter"
proof -
  from sample_init obtain app where ok: "init sample_collaborators sample_args = Inr app"
    by (rule exE)
  note table = init_converter_table [OF ok]
  have none: "dom (converters (new_Map sample_collaborators)) \<subseteq> converter_names"
    by (simp add: sample_collaborators_def)
  from table have "dom (converters (new_Map sample_collaborators)) \<subseteq> converter_names
      \<longrightarrow> dom (converters (url_map app)) = converter_names"
    by (rule conjunct2 [THEN conjunct2, THEN conjunct1])
  with none have names: "dom (converters (url_map app))
      = {''default'', ''string'', ''any'', ''path'', ''int'', ''float'', ''uuid''}"
    unfolding converter_names_def by (rule mp [rotated])
  from table have dflt: "converters (url_map app) ''default'' = Some UnicodeConverter"
    by (rule conjunct2 [THEN conjunct2, THEN conjunct2, THEN conjunct1])
  from table have str: "converters (url_map app) ''string'' = Some UnicodeConverter"
    by (rule conjunct2 [THEN conjunct2, THEN conjunct2, THEN conjunct2, THEN conjunct1])
  from ok names dflt str show ?thesis by (intro exI [of _ app] conjI)
qed

text \<open>The instance path that a successful construction stores.\<close>

lemma auto_find_instance_path_abspath:
  "\<exists>q. auto_find_instance_path E self = path_abspath E q"
  by (auto simp: auto_find_instance_path_def split: prod.splits option.splits)

lemma init_instance_path_result:
  assumes "init E a = Inr app"
  shows "init_instance_path E a (init_static E a)
           = Inr ((init_static E a)\<lparr>instance_path := instance_path app\<rparr>)"
proof -
  from assms obtain s1 s2 where
    ip: "init_instance_path E a (init_static E a) = Inr s1"
    and route: "init_static_route E a (init_registries E a s1) = Inr s2"
    and app: "app = init_finish E s2"
    by (rule init_Inr_D)
  from route app have "instance_path app = instance_path s1"
    by (simp add: init_finish_frame init_static_route_frame(2) init_registries_instance_path)
  with ip show ?thesis
    by (auto simp: init_instance_path_def split: option.splits if_splits)
qed

text \<open>
  C9.  The constructor raises \<open>ValueError\<close> when an instance path is given that is not
  absolute.  After a successful construction \<open>instance_path\<close> is set: to the path
  given, which is then absolute, or, when none was given, to the result of
  \<open>auto_find_instance_path\<close> on the object as lines 170 to 181 left it, which is a
  result of \<open>os.path.abspath\<close> and so absolute when \<open>abspath\<close> returns absolute paths.
\<close>

theorem init_instance_path_checked:
  "(arg_instance_path a = Some p \<and> \<not> path_isabs E p
      \<longrightarrow> init E a = Inl (ValueError (instance_path_error p)))
   \<and> (init E a = Inr app \<longrightarrow>
        (case arg_instance_path a of
           None \<Rightarrow> instance_path app = auto_find_instance_path E (init_static E a)
                  \<and> (\<exists>q. instance_path app = path_abspath E q)
         | Some q \<Rightarrow> instance_path app = q \<and> path_isabs E q))
   \<and> (init E a = Inr app \<and> arg_instance_path a = None
        \<and> (\<forall>q. path_isabs E (path_abspath E q))
      \<longrightarrow> path_isabs E (instance_path app))"
proof -
  have raised: "init E a = Inl (ValueError (instance_path_error p))"
    if "arg_instance_path a = Some p" "\<not> path_isabs E p"
    using that by (simp add: init_def init_instance_path_def)
  have stored: "case arg_instance_path a of
           None \<Rightarrow> instance_path app = auto_find_instance_path E (init_static E a)
                  \<and> (\<exists>q. instance_path app = path_abspath E q)
         | Some q \<Rightarrow> instance_path app = q \<and> path_isabs E q"
    if ok: "init E a = Inr app"
  proof (cases "arg_instance_path a")
    case None
    with init_instance_path_result [OF ok]
    have "(init_static E a)\<lparr>instance_path := auto_find_instance_path E (init_static E a)\<rparr>
        = (init_static E a)\<lparr>instance_path := instance_path app\<rparr>"
      by (simp add: init_instance_path_def)
    then have "instance_path app = auto_find_instance_path E (init_static E a)"
      by (auto dest: arg_cong [where f = instance_path])
    with auto_find_instance_path_abspath [of E "init_static E a"] None
    show ?thesis by simp
  next
    case (Some q)
    with init_instance_path_result [OF ok]
    have abs: "path_isabs E q"
      and "(init_static E a)\<lparr>instance_path := q\<rparr>
        = (init_static E a)\<lparr>instance_path := instance_path app\<rparr>"
      by (auto simp: init_instance_path_def split: if_splits)
    then have "instance_path app = q"
      by (auto dest: arg_cong [where f = instance_path])
    with abs Some show ?thesis by simp
  qed
  have absolute: "path_isabs E (instance_path app)"
    if ok: "init E a = Inr app" and none: "arg_instance_path a = None"
      and contract: "\<forall>q. path_isabs E (path_abspath E q)"
  proof -
    note found = stored [OF ok, unfolded none option.case]
    from found have "\<exists>q. instance_path app = path_abspath E q" by (rule conjunct2)
    then obtain q where "instance_path app = path_abspath E q" by (rule exE)
    with contract show ?thesis by simp
  qed
  from raised stored absolute show ?thesis by blast
qed

text \<open>
  On the sample collaborators: the relative path \<open>instance\<close> is refused, and without an
  instance path the application \<open>shop\<close> gets the absolute path \<open>/srv/shop/instance\<close>.
\<close>

lemma sample_abspath_absolute:
  "\<forall>q. path_isabs sample_collaborators (path_abspath sample_collaborators q)"
  by (simp add: sample_collaborators_def sample_isabs_def)

lemma sample_auto_find_instance_path:
  "auto_find_instance_path sample_collaborators (init_static sample_collaborators sample_args)
     = ''/srv/shop/instance''"
  by (simp add: auto_find_instance_path_def init_static_def sample_collaborators_def
        sample_args_def sample_object_def sample_isabs_def Let_def)

theorem init_instance_path_checked_witness:
  "init sample_collaborators (sample_args\<lparr>arg_instance_path := Some ''instance''\<rparr>)
     = Inl (ValueError (instance_path_error ''instance''))
   \<and> (\<exists>app. init sample_collaborators sample_args = Inr app
          \<and> instance_path app = ''/srv/shop/instance''
          \<and> path_isabs sample_collaborators (instance_path app))"
proof -
  let ?E = sample_collaborators
  let ?rel = "sample_args\<lparr>arg_instance_path := Some ''instance''\<rparr>"
  from sample_init obtain app where ok: "init ?E sample_args = Inr app"
    by (rule exE)
  have relative: "arg_instance_path ?rel = Some ''instance'' \<and> \<not> path_isabs ?E ''instance''"
    by (simp add: sample_collaborators_def sample_isabs_def)
  have none: "arg_instance_path sample_args = None"
    by (simp add: sample_args_def)
  note at_rel = init_instance_path_checked [where a = ?rel and p = "''instance''"
      and E = ?E and app = app]
  note at_default = init_instance_path_checked [where a = sample_args and p = "''instance''"
      and E = ?E and app = app]
  from at_rel [THEN conjunct1, THEN mp, OF relative]
  have refused: "init ?E ?rel = Inl (ValueError (instance_path_error ''instance''))" .
  from at_default [THEN conjunct2, THEN conjunct1, THEN mp, OF ok, unfolded none option.case]
  have "instance_path app = auto_find_instance_path ?E (init_static ?E sample_args)"
    by (rule conjunct1)
  then have path: "instance_path app = ''/srv/shop/instance''"
    by (simp only: sample_auto_find_instance_path)
  from ok none sample_abspath_absolute
  have "init ?E sample_args = Inr app \<and> arg_instance_path sample_args = None
      \<and> (\<forall>q. path_isabs ?E (path_abspath ?E q))"
    by (intro conjI)
  from at_default [THEN conjunct2, THEN conjunct2, THEN mp, OF this]
  have absolute: "path_isabs ?E (instance_path app)" .
  from ok path absolute
  have "\<exists>app. init ?E sample_args = Inr app
          \<and> instance_path app = ''/srv/shop/instance''
          \<and> path_isabs ?E (instance_path app)"
    by (intro exI [of _ app] conjI)
  with refused show ?thesis by (rule conjI)
qed

section \<open>Nesting of contexts\<close>

lemma push_app_contexts_stack:
  "app_stack (push_app_contexts u as S) u
     = rev (new_app_contexts (next_ctx_id S) as) @ app_stack S u"
  by (induction as arbitrary: S) (simp_all add: push_app_context_def)

lemma push_app_contexts_other:
  "v \<noteq> u \<Longrightarrow> app_stack (push_app_contexts u as S) v = app_stack S v"
  by (induction as arbitrary: S) (simp_all add: push_app_context_def)

lemma pop_app_contexts_prefix:
  "app_stack S u = xs @ ys \<Longrightarrow>
     \<exists>S'. pop_app_contexts u (length xs) S = Some S' \<and> app_stack S' u = ys
        \<and> (\<forall>v. v \<noteq> u \<longrightarrow> app_stack S' v = app_stack S v)"
proof (induction xs arbitrary: S)
  case Nil
  then show ?case by simp
next
  case (Cons x xs)
  let ?S1 = "S\<lparr>app_stack := (app_stack S)(u := xs @ ys)\<rparr>"
  have "app_stack ?S1 u = xs @ ys" by simp
  from Cons.IH [OF this] Cons.prems show ?case
    by (simp add: pop_app_context_def)
qed

lemma length_new_app_contexts: "length (new_app_contexts n as) = length as"
  by (induction as arbitrary: n) simp_all

lemma new_app_contexts_nth:
  "k < length as \<Longrightarrow>
     new_app_contexts n as ! k = \<lparr>app_ctx_id = n + k, app_ctx_app = as ! k, app_ctx_g = None\<rparr>"
proof (induction as arbitrary: n k)
  case Nil
  then show ?case by simp
next
  case (Cons a as)
  then show ?case by (cases k) simp_all
qed

lemma new_app_contexts_take:
  "new_app_contexts n (take i as) = take i (new_app_contexts n as)"
proof (induction as arbitrary: n i)
  case Nil
  then show ?case by simp
next
  case (Cons a as)
  then show ?case by (cases i) simp_all
qed

text \<open>
  C3.  Let a unit whose stack of application contexts is empty push one context for
  each of \<open>N\<close> applications and then pop \<open>N\<close> times: every pop succeeds and the
  stack of the unit is empty again, and the stacks of the other units are never
  touched.  Whenever the context of the \<open>i\<close>-th push is the top of the stack, that
  is right after the \<open>i\<close>-th push and again once the contexts pushed after it have
  been popped, the accessor of the current application returns exactly that
  context: the instance the \<open>i\<close>-th push created, for the \<open>i\<close>-th application.
\<close>

theorem app_context_nesting:
  fixes S :: "('app, 'g, 'req) context_stacks"
  assumes "app_stack S u = []" and "0 < i" and "i \<le> length as"
  shows "(\<exists>S'. pop_app_contexts u (length as) (push_app_contexts u as S) = Some S'
              \<and> app_stack S' u = []
              \<and> (\<forall>v. v \<noteq> u \<longrightarrow> app_stack S' v = app_stack S v))
       \<and> current_app u (push_app_contexts u (take i as) S)
           = Inr \<lparr>app_ctx_id = next_ctx_id S + (i - 1), app_ctx_app = as ! (i - 1),
                  app_ctx_g = None\<rparr>
       \<and> (\<exists>S'. pop_app_contexts u (length as - i) (push_app_contexts u as S) = Some S'
              \<and> current_app u S'
                  = Inr \<lparr>app_ctx_id = next_ctx_id S + (i - 1), app_ctx_app = as ! (i - 1),
                         app_ctx_g = None\<rparr>)"
proof -
  let ?cs = "new_app_contexts (next_ctx_id S) as :: ('app, 'g) app_context list"
  let ?c = "\<lparr>app_ctx_id = next_ctx_id S + (i - 1), app_ctx_app = as ! (i - 1),
             app_ctx_g = None\<rparr> :: ('app, 'g) app_context"
  have len: "length ?cs = length as" by (rule length_new_app_contexts)
  have ith: "?cs ! (i - 1) = ?c"
    using assms by (simp add: new_app_contexts_nth)
  have full: "app_stack (push_app_contexts u as S) u = rev ?cs @ []"
    using assms(1) by (simp add: push_app_contexts_stack)
  from pop_app_contexts_prefix [OF full] len
  have all_popped: "\<exists>S'. pop_app_contexts u (length as) (push_app_contexts u as S) = Some S'
              \<and> app_stack S' u = []
              \<and> (\<forall>v. v \<noteq> u \<longrightarrow> app_stack S' v = app_stack S v)"
    by (auto simp: push_app_contexts_other)
  have take_i: "take i ?cs = take (i - 1) ?cs @ [?c]"
    using assms len ith by (metis Suc_diff_1 Suc_le_lessD take_Suc_conv_app_nth)
  have "app_stack (push_app_contexts u (take i as) S) u = rev (take i ?cs)"
    using assms(1) by (simp add: push_app_contexts_stack new_app_contexts_take)
  with take_i have after_push:
    "current_app u (push_app_contexts u (take i as) S) = Inr ?c"
    by (simp add: current_app_def)
  have split: "rev ?cs = rev (drop i ?cs) @ rev (take i ?cs)"
    by (metis append_take_drop_id rev_append)
  have "app_stack (push_app_contexts u as S) u = rev (drop i ?cs) @ rev (take i ?cs)"
    using full split by simp
  from pop_app_contexts_prefix [OF this] len
  obtain S' where "pop_app_contexts u (length as - i) (push_app_contexts u as S) = Some S'"
    and "app_stack S' u = rev (take i ?cs)"
    by auto
  with take_i have "\<exists>S'. pop_app_contexts u (length as - i) (push_app_contexts u as S) = Some S'
              \<and> current_app u S' = Inr ?c"
    by (auto simp: current_app_def)
  with all_popped after_push show ?thesis by (intro conjI)
qed

text \<open>
  Three applications pushed on the empty stacks by unit 0: three pops empty the
  stack, and the second context is current after the second push and after one
  pop.
\<close>

theorem app_context_nesting_witness:
  "(\<exists>S'. pop_app_contexts 0 3 (push_app_contexts 0 [''shop'', ''blog'', ''wiki''] empty_stacks)
            = Some S'
        \<and> app_stack S' 0 = [])
   \<and> current_app 0 (push_app_contexts 0 [''shop'', ''blog''] empty_stacks)
       = Inr \<lparr>app_ctx_id = 1, app_ctx_app = ''blog'', app_ctx_g = None\<rparr>
   \<and> (\<exists>S'. pop_app_contexts 0 1 (push_app_contexts 0 [''shop'', ''blog'', ''wiki''] empty_stacks)
            = Some S'
        \<and> current_app 0 S' = Inr \<lparr>app_ctx_id = 1, app_ctx_app = ''blog'', app_ctx_g = None\<rparr>)"
proof -
  have empty: "app_stack empty_stacks 0 = []" by (simp add: empty_stacks_def)
  have pos: "0 < (2::nat)" by simp
  have le: "(2::nat) \<le> length [''shop'', ''blog'', ''wiki'']" by simp
  have n3: "length [''shop'', ''blog'', ''wiki''] = 3" by simp
  have n1: "(3::nat) - 2 = 1" by simp
  have t2: "take 2 [''shop'', ''blog'', ''wiki''] = [''shop'', ''blog'']" by simp
  have i1: "[''shop'', ''blog'', ''wiki''] ! (2 - 1) = ''blog''" by simp
  have id1: "next_ctx_id empty_stacks + (2 - 1) = 1" by (simp add: empty_stacks_def)
  note nest = app_context_nesting [OF empty pos le, unfolded n3 n1 t2 i1 id1]
  from nest [THEN conjunct1]
  have emptied: "\<exists>S'. pop_app_contexts 0 3
        (push_app_contexts 0 [''shop'', ''blog'', ''wiki''] empty_stacks) = Some S'
        \<and> app_stack S' 0 = []"
    by blast
  note second = nest [THEN conjunct2, THEN conjunct1]
  note again = nest [THEN conjunct2, THEN conjunct2]
  from emptied second again show ?thesis by (intro conjI)
qed

section \<open>Access outside a context\<close>

text \<open>
  C4.  The accessor of the current application fails with \<open>ContextMissingError\<close>
  exactly when the stack of application contexts of the calling unit is empty, and
  the accessor of the current request exactly when its stack of request contexts
  is empty; on an empty stack neither returns a value of any kind.  Only the stack
  of the calling unit counts: a context pushed by another unit does not help.  And
  once a unit has popped what it pushed, an application context or a request
  context with the application context it pushed implicitly, both accessors fail
  again.
\<close>

theorem current_fails_when_empty:
  fixes S :: "('app, 'g, 'req) context_stacks"
  shows "(current_app u S = Inl ContextMissingError \<longleftrightarrow> app_stack S u = [])
       \<and> (current_request u S = Inl ContextMissingError \<longleftrightarrow> request_stack S u = [])
       \<and> (app_stack S u = [] \<longrightarrow> (\<nexists>c. current_app u S = Inr c))
       \<and> (request_stack S u = [] \<longrightarrow> (\<nexists>r. current_request u S = Inr r))
       \<and> (v \<noteq> u \<and> app_stack S u = []
            \<longrightarrow> current_app u (push_app_context v a S) = Inl ContextMissingError
              \<and> current_app u (push_request_context v a rq S) = Inl ContextMissingError)
       \<and> (v \<noteq> u \<and> request_stack S u = []
            \<longrightarrow> current_request u (push_request_context v a rq S) = Inl ContextMissingError)
       \<and> (app_stack S u = [] \<longrightarrow>
            (\<exists>c due S'. pop_app_context u (push_app_context u a S) = Some (c, due, S')
               \<and> current_app u S' = Inl ContextMissingError))
       \<and> (app_stack S u = [] \<and> request_stack S u = [] \<longrightarrow>
            (\<exists>r S'. pop_request_context u (push_request_context u a rq S) = Some (r, S')
               \<and> current_request u S' = Inl ContextMissingError
               \<and> current_app u S' = Inl ContextMissingError))"
proof -
  have app_iff: "current_app u S = Inl ContextMissingError \<longleftrightarrow> app_stack S u = []"
    by (simp add: current_app_def split: list.splits)
  have req_iff: "current_request u S = Inl ContextMissingError \<longleftrightarrow> request_stack S u = []"
    by (simp add: current_request_def split: list.splits)
  have app_none: "app_stack S u = [] \<longrightarrow> (\<nexists>c. current_app u S = Inr c)"
    by (simp add: current_app_def)
  have req_none: "request_stack S u = [] \<longrightarrow> (\<nexists>r. current_request u S = Inr r)"
    by (simp add: current_request_def)
  have other_app: "v \<noteq> u \<and> app_stack S u = []
            \<longrightarrow> current_app u (push_app_context v a S) = Inl ContextMissingError
              \<and> current_app u (push_request_context v a rq S) = Inl ContextMissingError"
    by (simp add: current_app_def push_app_context_def push_request_context_def Let_def)
  have other_req: "v \<noteq> u \<and> request_stack S u = []
            \<longrightarrow> current_request u (push_request_context v a rq S) = Inl ContextMissingError"
    by (simp add: current_request_def push_app_context_def push_request_context_def Let_def)
  have app_again: "app_stack S u = [] \<longrightarrow>
            (\<exists>c due S'. pop_app_context u (push_app_context u a S) = Some (c, due, S')
               \<and> current_app u S' = Inl ContextMissingError)"
    by (auto simp: pop_app_context_def push_app_context_def current_app_def)
  have req_again: "app_stack S u = [] \<and> request_stack S u = [] \<longrightarrow>
            (\<exists>r S'. pop_request_context u (push_request_context u a rq S) = Some (r, S')
               \<and> current_request u S' = Inl ContextMissingError
               \<and> current_app u S' = Inl ContextMissingError)"
    by (simp add: pop_request_context_def push_request_context_def pop_app_context_def
          push_app_context_def current_app_def current_request_def Let_def)
  from app_iff req_iff app_none req_none other_app other_req app_again req_again
  show ?thesis by (intro conjI)
qed

text \<open>
  On the empty stacks unit 0 has no current application and no current request,
  also after unit 1 pushed a request context; after its own push it has both, and
  after the pop of the request context neither.
\<close>

theorem current_fails_when_empty_witness:
  "current_app 0 empty_stacks = Inl ContextMissingError
   \<and> current_request 0 empty_stacks = Inl ContextMissingError
   \<and> (\<nexists>c. current_app 0 empty_stacks = Inr c)
   \<and> current_app 0 (push_request_context 1 ''shop'' ''GET /cart'' empty_stacks)
       = Inl ContextMissingError
   \<and> current_request 0 (push_request_context 1 ''shop'' ''GET /cart'' empty_stacks)
       = Inl ContextMissingError
   \<and> current_app 0 (push_request_context 0 ''shop'' ''GET /cart'' empty_stacks)
       = Inr \<lparr>app_ctx_id = 0, app_ctx_app = ''shop'', app_ctx_g = None\<rparr>
   \<and> (\<exists>r S'. pop_request_context 0 (push_request_context 0 ''shop'' ''GET /cart'' empty_stacks)
           = Some (r, S')
         \<and> current_request 0 S' = Inl ContextMissingError
         \<and> current_app 0 S' = Inl ContextMissingError)"
proof -
  have a0: "app_stack empty_stacks 0 = []" and r0: "request_stack empty_stacks 0 = []"
    by (simp_all add: empty_stacks_def)
  have ne: "(1::nat) \<noteq> 0" by simp
  note facts = current_fails_when_empty [where S = empty_stacks and u = 0 and v = 1
      and a = "''shop''" and rq = "''GET /cart''"]
  from facts [THEN conjunct1] a0
  have w1: "current_app 0 empty_stacks = Inl ContextMissingError" by (rule iffD2)
  from facts [THEN conjunct2, THEN conjunct1] r0
  have w2: "current_request 0 empty_stacks = Inl ContextMissingError" by (rule iffD2)
  from facts [THEN conjunct2, THEN conjunct2, THEN conjunct1, THEN mp, OF a0]
  have w3: "\<nexists>c. current_app 0 empty_stacks = Inr c" .
  from facts [THEN conjunct2, THEN conjunct2, THEN conjunct2, THEN conjunct2, THEN conjunct1,
      THEN mp, OF conjI [OF ne a0], THEN conjunct2]
  have w4: "current_app 0 (push_request_context 1 ''shop'' ''GET /cart'' empty_stacks)
       = Inl ContextMissingError" .
  from facts [THEN conjunct2, THEN conjunct2, THEN conjunct2, THEN conjunct2, THEN conjunct2,
      THEN conjunct1, THEN mp, OF conjI [OF ne r0]]
  have w5: "current_request 0 (push_request_context 1 ''shop'' ''GET /cart'' empty_stacks)
       = Inl ContextMissingError" .
  have w6: "current_app 0 (push_request_context 0 ''shop'' ''GET /cart'' empty_stacks)
       = Inr \<lparr>app_ctx_id = 0, app_ctx_app = ''shop'', app_ctx_g = None\<rparr>"
    by (simp add: current_app_def push_request_context_def push_app_context_def
          empty_stacks_def Let_def)
  from facts [THEN conjunct2, THEN conjunct2, THEN conjunct2, THEN conjunct2, THEN conjunct2,
      THEN conjunct2, THEN conjunct2, THEN mp, OF conjI [OF a0 r0]]
  have w7: "\<exists>r S'. pop_request_context 0
           (push_request_context 0 ''shop'' ''GET /cart'' empty_stacks) = Some (r, S')
         \<and> current_request 0 S' = Inl ContextMissingError
         \<and> current_app 0 S' = Inl ContextMissingError" .
  from w1 w2 w3 w4 w5 w6 w7 show ?thesis by (intro conjI)
qed

end
